theory Spec2Isabelle
  imports Main "HOL-Library.AList"
begin

section \<open>Values of the input record\<close>

text \<open>
  The input of \<open>index.js\<close> is a JavaScript value, in practice parsed JSON. An object is
  kept as its property list in enumeration order (a real object has no duplicate keys);
  \<open>JUndefined\<close> is what a missing property reads as. Numbers are only ever tested for
  truthiness by this program, so integers stand for them.
\<close>

datatype json =
    JUndefined
  | JNull
  | JBool bool
  | JNum int
  | JStr string
  | JArr "json list"
  | JObj "(string \<times> json) list"

text \<open>JavaScript truthiness, as tested by \<open>if (data)\<close> and by \<open>&&\<close>.\<close>

fun truthy :: "json \<Rightarrow> bool" where
  "truthy JUndefined = False"
| "truthy JNull = False"
| "truthy (JBool b) = b"
| "truthy (JNum n) = (n \<noteq> 0)"
| "truthy (JStr s) = (s \<noteq> [])"
| "truthy (JArr xs) = True"
| "truthy (JObj kvs) = True"

text \<open>\<open>null\<close> and \<open>undefined\<close>: member access on them raises a TypeError.\<close>

fun nullish :: "json \<Rightarrow> bool" where
  "nullish JUndefined = True"
| "nullish JNull = True"
| "nullish v = False"

text \<open>
  Member access \<open>v.k\<close> / \<open>v[k]\<close> on a value that is not \<open>null\<close> or \<open>undefined\<close>, for the
  property names this program reads (\<open>meta\<close>, \<open>data\<close>, \<open>identifiers\<close> and the section
  names): an own property of an object, \<open>undefined\<close> otherwise. None of these names is an
  array index, \<open>length\<close> or a prototype method, so arrays, strings, numbers and booleans
  read as \<open>undefined\<close>. Every caller below has either checked \<open>nullish\<close> or guards the
  access with \<open>&&\<close>.
\<close>

fun get :: "json \<Rightarrow> string \<Rightarrow> json" where
  "get (JObj kvs) k = (case map_of kvs k of Some v \<Rightarrow> v | None \<Rightarrow> JUndefined)"
| "get v k = JUndefined"

text \<open>\<open>a && b\<close>: the left operand when it is falsy, the right one otherwise.\<close>

definition js_and :: "json \<Rightarrow> json \<Rightarrow> json" where
  "js_and a b = (if truthy a then b else a)"

text \<open>Decimal rendering of an array or string index, as \<open>for ... in\<close> yields it.\<close>

definition digit_char :: "nat \<Rightarrow> char" where
  "digit_char d = char_of (48 + d)"

fun index_key :: "nat \<Rightarrow> string" where
  "index_key n = (if n < 10 then [digit_char n] else index_key (n div 10) @ [digit_char (n mod 10)])"

declare index_key.simps [simp del]

text \<open>
  The keys \<open>for (var k in v)\<close> enumerates: the own properties of an object, the indices
  of an array or of a string, nothing for a number or a boolean.
\<close>

fun for_in_keys :: "json \<Rightarrow> string list" where
  "for_in_keys (JObj kvs) = map fst kvs"
| "for_in_keys (JArr xs) = map index_key [0..<length xs]"
| "for_in_keys (JStr s) = map index_key [0..<length s]"
| "for_in_keys v = []"

section \<open>The document tree\<close>

text \<open>
  A libxmljs element: name, attributes in the order they were set, text content and
  child elements in document order.
\<close>

datatype xml = Elem (node_name: string) (node_attrs: "(string \<times> string) list")
  (node_text: string) (child_nodes: "xml list")

text \<open>A fresh element, as \<open>parent.node(name, content)\<close> creates it before it is attached.\<close>

definition new_node :: "string \<Rightarrow> string \<Rightarrow> xml" where
  "new_node name content = Elem name [] content []"

text \<open>\<open>.attr({k1: v1, ...})\<close>: sets each attribute in turn, replacing one already there.\<close>

definition attr :: "xml \<Rightarrow> (string \<times> string) list \<Rightarrow> xml" where
  "attr n kvs =
     Elem (node_name n) (foldl (\<lambda>al (k, v). AList.update k v al) (node_attrs n) kvs)
       (node_text n) (child_nodes n)"

text \<open>Attaching a child as the last child of its parent.\<close>

definition append_child :: "xml \<Rightarrow> xml \<Rightarrow> xml" where
  "append_child parent child =
     Elem (node_name parent) (node_attrs parent) (node_text parent) (child_nodes parent @ [child])"

section \<open>Collaborators\<close>

text \<open>
  \<open>index.js\<close> calls code that lives in other modules: the template filler
  \<open>js2xml.fillUsingTemplate\<close>, the seven template descriptions of \<open>sectionLevel\<close>, the
  five section generators under \<open>lib/\<close>, the id-block generator \<open>libCCDAGen.id\<close> and the
  code-system table of \<open>blue-button-meta\<close>. They are parameters of the model. A
  collaborator is given the node it writes under and returns that node as it is after
  the call, or the exception it raised.
\<close>

datatype error = TypeError | Thrown string

datatype template =
    allergiesSectionEntriesRequired
  | encountersSectionEntriesRequired
  | immunizationsSectionEntriesRequired
  | medicationsSectionEntriesRequired
  | planOfCareSectionEntriesRequired
  | problemsSectionEntriesRequired
  | proceduresSectionEntriesRequired

type_synonym generator =
  "json \<Rightarrow> (string \<times> string) list \<Rightarrow> bool \<Rightarrow> xml \<Rightarrow> error + (xml option \<times> xml)"

record collaborators =
  codeSystems :: "(string \<times> string) list"
  fillUsingTemplate :: "xml \<Rightarrow> json \<Rightarrow> template \<Rightarrow> error + xml"
  demographics :: generator
  payers :: generator
  results :: generator
  social_history :: generator
  vitals :: generator
  libCCDAGen_id :: "xml \<Rightarrow> json \<Rightarrow> error + xml"

section \<open>Section registry and single-section entry point\<close>

text \<open>\<open>sectionNames\<close> (lines 26-40): the object with keys 0..12, read by position.\<close>

definition sectionNames :: "string list" where
  "sectionNames =
     [''null'', ''demographics'', ''allergies'', ''encounters'', ''immunizations'',
      ''medications'', ''payers'', ''plan_of_care'', ''problems'', ''procedures'',
      ''results'', ''social_history'', ''vitals'']"

text \<open>
  A statement \<open>js2xml.fillUsingTemplate(xmlDoc, data, t);\<close> of \<open>gen\<close>: the call, after
  which \<open>gen\<close> falls off its end and returns \<open>undefined\<close>.
\<close>

definition fill :: "collaborators \<Rightarrow> xml \<Rightarrow> json \<Rightarrow> template \<Rightarrow> error + (xml option \<times> xml)" where
  "fill c xmlDoc data t =
     (case fillUsingTemplate c xmlDoc data t of
        Inl e \<Rightarrow> Inl e
      | Inr xmlDoc' \<Rightarrow> Inr (None, xmlDoc'))"

text \<open>
  \<open>gen\<close> (lines 50-80). The result is the returned value (\<open>None\<close> for \<open>undefined\<close>)
  together with \<open>xmlDoc\<close> as the call leaves it.
\<close>

definition gen :: "collaborators \<Rightarrow> json \<Rightarrow> bool \<Rightarrow> xml \<Rightarrow> string \<Rightarrow> error + (xml option \<times> xml)" where
  "gen c data CCD xmlDoc section_name =
     (if truthy data then
        if section_name = ''demographics'' then demographics c data (codeSystems c) CCD xmlDoc
        else if section_name = ''allergies'' then fill c xmlDoc data allergiesSectionEntriesRequired
        else if section_name = ''encounters'' then fill c xmlDoc data encountersSectionEntriesRequired
        else if section_name = ''immunizations'' then fill c xmlDoc data immunizationsSectionEntriesRequired
        else if section_name = ''medications'' then fill c xmlDoc data medicationsSectionEntriesRequired
        else if section_name = ''payers'' then payers c data (codeSystems c) CCD xmlDoc
        else if section_name = ''plan_of_care'' then fill c xmlDoc data planOfCareSectionEntriesRequired
        else if section_name = ''problems'' then fill c xmlDoc data problemsSectionEntriesRequired
        else if section_name = ''procedures'' then fill c xmlDoc data proceduresSectionEntriesRequired
        else if section_name = ''results'' then results c data (codeSystems c) CCD xmlDoc
        else if section_name = ''social_history'' then social_history c data (codeSystems c) CCD xmlDoc
        else if section_name = ''vitals'' then vitals c data (codeSystems c) CCD xmlDoc
        else Inr (None, xmlDoc)
      else Inr (Some xmlDoc, xmlDoc))"

section \<open>Whole-document assembly\<close>

text \<open>Lines 91-93: the section data is the \<open>data\<close> wrapper when the record has one.\<close>

definition unwrap :: "json \<Rightarrow> json" where
  "unwrap record = (if truthy (get record ''data'') then get record ''data'' else record)"

text \<open>Lines 98-117: the root element and its children up to the second templateId.\<close>

definition header_before_id :: xml where
  "header_before_id =
     (let xmlDoc = attr (new_node ''ClinicalDocument'' [])
            [(''xmlns:xsi'', ''http://www.w3.org/2001/XMLSchema-instance''),
             (''xmlns'', ''urn:hl7-org:v3''),
             (''xmlns:cda'', ''urn:hl7-org:v3''),
             (''xmlns:sdtc'', ''urn:hl7-org:sdtc'')];
          xmlDoc = append_child xmlDoc (attr (new_node ''realmCode'' []) [(''code'', ''US'')]);
          xmlDoc = append_child xmlDoc (attr (new_node ''typeId'' [])
            [(''root'', ''2.16.840.1.113883.1.3''), (''extension'', ''POCD_HD000040'')]);
          xmlDoc = append_child xmlDoc (attr (new_node ''templateId'' [])
            [(''root'', ''2.16.840.1.113883.10.20.22.1.1'')]);
          xmlDoc = append_child xmlDoc (attr (new_node ''templateId'' [])
            [(''root'', ''2.16.840.1.113883.10.20.22.1.2'')])
      in xmlDoc)"

text \<open>Lines 121-144: the children from code to versionNumber, added after the id block.\<close>

definition header_after_id :: "xml \<Rightarrow> xml" where
  "header_after_id xmlDoc0 =
     (let xmlDoc = append_child xmlDoc0 (attr (new_node ''code'' [])
            [(''codeSystem'', ''2.16.840.1.113883.6.1''),
             (''codeSystemName'', ''LOINC''),
             (''code'', ''34133-9''),
             (''displayName'', ''Summarization of Episode Note'')]);
          xmlDoc = append_child xmlDoc
            (new_node ''title'' ''Community Health and Hospitals: Health Summary'');
          xmlDoc = append_child xmlDoc (attr (new_node ''effectiveTime'' []) [(''value'', ''TODO'')]);
          xmlDoc = append_child xmlDoc (attr (new_node ''confidentialityCode'' [])
            [(''code'', ''N''), (''codeSystem'', ''2.16.840.1.113883.5.25'')]);
          xmlDoc = append_child xmlDoc (attr (new_node ''languageCode'' []) [(''code'', ''en-US'')]);
          xmlDoc = append_child xmlDoc (attr (new_node ''setId'' [])
            [(''extension'', ''sTT988''), (''root'', ''2.16.840.1.113883.19.5.99999.19'')]);
          xmlDoc = append_child xmlDoc (attr (new_node ''versionNumber'' []) [(''value'', ''1'')])
      in xmlDoc)"

text \<open>Lines 153-158: the keys of the section data other than \<open>demographics\<close>.\<close>

definition count_sections :: "json \<Rightarrow> nat" where
  "count_sections data = length (filter (\<lambda>sections. sections \<noteq> ''demographics'') (for_in_keys data))"

text \<open>
  Lines 165-169, the body of the loop for the section called \<open>name\<close>: the whole section
  data for the seven listed names, the section's own slice for the others.
\<close>

definition section_step :: "collaborators \<Rightarrow> json \<Rightarrow> xml \<Rightarrow> string \<Rightarrow> error + (xml option \<times> xml)" where
  "section_step c data sb name =
     (if name = ''plan_of_care'' \<or> name = ''procedures'' \<or> name = ''encounters''
         \<or> name = ''allergies'' \<or> name = ''medications'' \<or> name = ''immunizations''
         \<or> name = ''problems''
      then gen c data True sb name
      else gen c (get data name) True sb name)"

text \<open>
  Lines 164-170: \<open>for (var i = 2; i < Object.keys(sectionNames).length; i++)\<close>, threading
  the structuredBody node through the calls; an exception ends the loop.
\<close>

function sections_loop :: "collaborators \<Rightarrow> json \<Rightarrow> xml \<Rightarrow> nat \<Rightarrow> error + xml" where
  "sections_loop c data sb i =
     (if i < length sectionNames then
        (case section_step c data sb (sectionNames ! i) of
           Inl e \<Rightarrow> Inl e
         | Inr (r, sb') \<Rightarrow> sections_loop c data sb' (Suc i))
      else Inr sb)"
  by pat_completeness auto
termination
  by (relation "measure (\<lambda>(c, data, sb, i). length sectionNames - i)") auto

declare sections_loop.simps [simp del]

text \<open>
  \<open>genWholeCCDA\<close> (lines 89-173). The result is the returned value (\<open>Some doc\<close> stands for
  \<open>doc.toString()\<close> of that tree, \<open>None\<close> for \<open>undefined\<close>) together with the document
  that was built. \<open>x.node(name)\<close> attaches a child and hands it out; the model fills the
  child first and attaches its final state, which is the same tree, since a collaborator
  writes only under the node it is given and nothing else is attached to the parent in
  between.
\<close>

definition genWholeCCDA :: "collaborators \<Rightarrow> json \<Rightarrow> error + (xml option \<times> xml)" where
  "genWholeCCDA c record =
     (if nullish record then Inl TypeError
      else
        let meta = get record ''meta'';
            data = unwrap record
        in (case libCCDAGen_id c header_before_id (js_and meta (get meta ''identifiers'')) of
              Inl e \<Rightarrow> Inl e
            | Inr xmlDoc1 \<Rightarrow>
               (let xmlDoc2 = header_after_id xmlDoc1
                in (case libCCDAGen_id c (new_node ''patientRole'' [])
                          (js_and (get data ''demographics'')
                             (get (get data ''demographics'') ''identifiers'')) of
                      Inl e \<Rightarrow> Inl e
                    | Inr pr1 \<Rightarrow>
                       (case gen c (get data (sectionNames ! 1)) True pr1 (sectionNames ! 1) of
                          Inl e \<Rightarrow> Inl e
                        | Inr (r, pr2) \<Rightarrow>
                           (let xmlDoc3 = append_child xmlDoc2
                                  (append_child (new_node ''recordTarget'' []) pr2)
                            in (if 0 < count_sections data then
                                  (case sections_loop c data (new_node ''structuredBody'' []) 2 of
                                     Inl e \<Rightarrow> Inl e
                                   | Inr sb \<Rightarrow>
                                      (let doc = append_child xmlDoc3
                                             (append_child (new_node ''component'' []) sb)
                                       in Inr (Some doc, doc)))
                                else Inr (None, xmlDoc3))))))))"

section \<open>Collaborators for running the model\<close>

text \<open>Several children attached in turn.\<close>

definition add_children :: "xml \<Rightarrow> xml list \<Rightarrow> xml" where
  "add_children parent frag = foldl append_child parent frag"

text \<open>
  Modelled from the spec: the collaborators themselves (\<open>lib/templates/js2xml\<close>,
  \<open>lib/demographics.js\<close>, \<open>lib/payers.js\<close>, \<open>lib/results.js\<close>, \<open>lib/social_history.js\<close>,
  \<open>lib/vitals.js\<close>, \<open>lib/templating_functions.js\<close>) are not part of \<open>index.js\<close>. The
  spec's contract for them is that a call is handed its insertion point and may append
  to it but never touches what is already there. \<open>appending_collaborators\<close> are the
  collaborators that keep this contract and do not raise: each appends a fragment
  determined by its arguments, and a section generator returns the node it wrote under.
\<close>

definition appending_generator ::
    "(json \<Rightarrow> (string \<times> string) list \<Rightarrow> bool \<Rightarrow> xml list) \<Rightarrow> generator" where
  "appending_generator frag data cs CCD xmlDoc =
     (let xmlDoc' = add_children xmlDoc (frag data cs CCD) in Inr (Some xmlDoc', xmlDoc'))"

definition appending_collaborators ::
    "(string \<times> string) list \<Rightarrow> (template \<Rightarrow> json \<Rightarrow> xml list)
      \<Rightarrow> (string \<Rightarrow> json \<Rightarrow> (string \<times> string) list \<Rightarrow> bool \<Rightarrow> xml list)
      \<Rightarrow> (json \<Rightarrow> xml list) \<Rightarrow> collaborators" where
  "appending_collaborators cs ff bf idf =
     \<lparr> codeSystems = cs,
       fillUsingTemplate = (\<lambda>xmlDoc data t. Inr (add_children xmlDoc (ff t data))),
       demographics = appending_generator (bf ''demographics''),
       payers = appending_generator (bf ''payers''),
       results = appending_generator (bf ''results''),
       social_history = appending_generator (bf ''social_history''),
       vitals = appending_generator (bf ''vitals''),
       libCCDAGen_id = (\<lambda>xmlDoc identifiers. Inr (add_children xmlDoc (idf identifiers))) \<rparr>"

text \<open>
  \<open>echo\<close> is one such set of collaborators, used to run the model on concrete records:
  every call appends a single element that shows which collaborator was called and with
  what data and flag.
\<close>

definition show_int :: "int \<Rightarrow> string" where
  "show_int n = (if n < 0 then ''-'' else []) @ index_key (nat (abs n))"

primrec json_to_xml :: "json \<Rightarrow> xml" where
  "json_to_xml JUndefined = Elem ''undefined'' [] [] []"
| "json_to_xml JNull = Elem ''null'' [] [] []"
| "json_to_xml (JBool b) = Elem ''boolean'' [] (if b then ''true'' else ''false'') []"
| "json_to_xml (JNum n) = Elem ''number'' [] (show_int n) []"
| "json_to_xml (JStr s) = Elem ''string'' [] s []"
| "json_to_xml (JArr xs) = Elem ''array'' [] [] (map json_to_xml xs)"
| "json_to_xml (JObj kvs) =
     Elem ''object'' [] [] (map (\<lambda>(k, x). Elem k [] [] [x]) (map (map_prod id json_to_xml) kvs))"

primrec template_name :: "template \<Rightarrow> string" where
  "template_name allergiesSectionEntriesRequired = ''allergiesSectionEntriesRequired''"
| "template_name encountersSectionEntriesRequired = ''encountersSectionEntriesRequired''"
| "template_name immunizationsSectionEntriesRequired = ''immunizationsSectionEntriesRequired''"
| "template_name medicationsSectionEntriesRequired = ''medicationsSectionEntriesRequired''"
| "template_name planOfCareSectionEntriesRequired = ''planOfCareSectionEntriesRequired''"
| "template_name problemsSectionEntriesRequired = ''problemsSectionEntriesRequired''"
| "template_name proceduresSectionEntriesRequired = ''proceduresSectionEntriesRequired''"

definition echo :: collaborators where
  "echo =
     appending_collaborators [(''LOINC'', ''2.16.840.1.113883.6.1'')]
       (\<lambda>t data. [Elem (template_name t) [] [] [json_to_xml data]])
       (\<lambda>name data cs CCD.
          [Elem name [(''isWholeDocument'', if CCD then ''true'' else ''false'')] []
             [json_to_xml data]])
       (\<lambda>identifiers. [Elem ''id'' [] [] [json_to_xml identifiers]])"

text \<open>Collaborators that raise on every call.\<close>

definition raising :: collaborators where
  "raising =
     \<lparr> codeSystems = [],
       fillUsingTemplate = (\<lambda>xmlDoc data t. Inl (Thrown ''fillUsingTemplate'')),
       demographics = (\<lambda>data cs CCD xmlDoc. Inl (Thrown ''demographics'')),
       payers = (\<lambda>data cs CCD xmlDoc. Inl (Thrown ''payers'')),
       results = (\<lambda>data cs CCD xmlDoc. Inl (Thrown ''results'')),
       social_history = (\<lambda>data cs CCD xmlDoc. Inl (Thrown ''social_history'')),
       vitals = (\<lambda>data cs CCD xmlDoc. Inl (Thrown ''vitals'')),
       libCCDAGen_id = (\<lambda>xmlDoc identifiers. Inl (Thrown ''id'')) \<rparr>"

text \<open>The children of a node with a given element name.\<close>

definition children_named :: "string \<Rightarrow> xml \<Rightarrow> xml list" where
  "children_named name n = filter (\<lambda>ch. node_name ch = name) (child_nodes n)"

section \<open>Reading results and trees\<close>

text \<open>
  The loop of \<open>genWholeCCDA\<close> seen as a walk over a list of section names: the same
  steps as \<open>sections_loop\<close>, for the names from position \<open>i\<close> on.
\<close>

fun run_sections :: "collaborators \<Rightarrow> json \<Rightarrow> string list \<Rightarrow> xml \<Rightarrow> error + xml" where
  "run_sections c data [] sb = Inr sb"
| "run_sections c data (name # names) sb =
     (case section_step c data sb name of
        Inl e \<Rightarrow> Inl e
      | Inr (r, sb') \<Rightarrow> run_sections c data names sb')"

text \<open>
  The elements reached from a node by a path of child names, the document a call built
  (\<open>None\<close> when it raised) and the parent node as a call left it.
\<close>

fun select_path :: "string list \<Rightarrow> xml \<Rightarrow> xml list" where
  "select_path [] n = [n]"
| "select_path (name # path) n = concat (map (select_path path) (children_named name n))"

definition built_document :: "error + (xml option \<times> xml) \<Rightarrow> xml option" where
  "built_document res = (case res of Inl e \<Rightarrow> None | Inr (ret, doc) \<Rightarrow> Some doc)"

definition parent_after :: "error + (xml option \<times> xml) \<Rightarrow> error + xml" where
  "parent_after res = (case res of Inl e \<Rightarrow> Inl e | Inr (ret, p) \<Rightarrow> Inr p)"

text \<open>
  Records to run the model on: a flat record with two body sections and no
  demographics, listed against the canonical order; a flat record with only meta and
  demographics; a record with a \<open>data\<close> wrapper that has a meta key of its own; and the
  meta-and-demographics record again, with demographics under a \<open>data\<close> wrapper.
\<close>

definition sample_body_record :: json where
  "sample_body_record =
     JObj [(''payers'', JArr [JObj [(''plan'', JStr ''A'')]]),
           (''allergies'', JArr [JObj [(''allergen'', JStr ''penicillin'')]])]"

definition sample_flat_record :: json where
  "sample_flat_record =
     JObj [(''meta'', JObj [(''identifiers'', JArr [JStr ''doc-1''])]),
           (''demographics'', JObj [(''identifiers'', JArr [JStr ''pat-1''])])]"

definition sample_wrapped_record :: json where
  "sample_wrapped_record =
     JObj [(''data'',
              JObj [(''vitals'', JArr [JStr ''height'']),
                    (''meta'', JObj [(''identifiers'', JArr [JStr ''inner''])]),
                    (''demographics'', JObj [(''identifiers'', JArr [JStr ''pat-1''])]),
                    (''allergies'', JArr [JStr ''penicillin''])]),
           (''meta'', JObj [(''identifiers'', JArr [JStr ''outer''])])]"

definition sample_wrapped_header_only :: json where
  "sample_wrapped_header_only =
     JObj [(''meta'', JObj [(''identifiers'', JArr [JStr ''doc-1''])]),
           (''data'', JObj [(''demographics'', JObj [(''identifiers'', JArr [JStr ''pat-1''])])])]"

section \<open>Basic facts\<close>

lemma add_children_eq:
  "add_children p frag = Elem (node_name p) (node_attrs p) (node_text p) (child_nodes p @ frag)"
  unfolding add_children_def
  by (induction frag arbitrary: p) (simp_all add: append_child_def)

lemma add_children_append: "add_children (add_children p a) b = add_children p (a @ b)"
  by (simp add: add_children_def)

lemma header_before_id_eq:
  "header_before_id =
     Elem ''ClinicalDocument''
       [(''xmlns:xsi'', ''http://www.w3.org/2001/XMLSchema-instance''),
        (''xmlns'', ''urn:hl7-org:v3''),
        (''xmlns:cda'', ''urn:hl7-org:v3''),
        (''xmlns:sdtc'', ''urn:hl7-org:sdtc'')] []
       [Elem ''realmCode'' [(''code'', ''US'')] [] [],
        Elem ''typeId'' [(''root'', ''2.16.840.1.113883.1.3''), (''extension'', ''POCD_HD000040'')] [] [],
        Elem ''templateId'' [(''root'', ''2.16.840.1.113883.10.20.22.1.1'')] [] [],
        Elem ''templateId'' [(''root'', ''2.16.840.1.113883.10.20.22.1.2'')] [] []]"
  by (simp add: header_before_id_def new_node_def attr_def append_child_def)

lemma header_after_id_eq:
  "header_after_id x =
     Elem (node_name x) (node_attrs x) (node_text x)
       (child_nodes x @
        [Elem ''code''
           [(''codeSystem'', ''2.16.840.1.113883.6.1''), (''codeSystemName'', ''LOINC''),
            (''code'', ''34133-9''), (''displayName'', ''Summarization of Episode Note'')] [] [],
         Elem ''title'' [] ''Community Health and Hospitals: Health Summary'' [],
         Elem ''effectiveTime'' [(''value'', ''TODO'')] [] [],
         Elem ''confidentialityCode''
           [(''code'', ''N''), (''codeSystem'', ''2.16.840.1.113883.5.25'')] [] [],
         Elem ''languageCode'' [(''code'', ''en-US'')] [] [],
         Elem ''setId''
           [(''extension'', ''sTT988''), (''root'', ''2.16.840.1.113883.19.5.99999.19'')] [] [],
         Elem ''versionNumber'' [(''value'', ''1'')] [] []])"
  by (simp add: header_after_id_def new_node_def attr_def append_child_def)

lemma sectionNames_1: "sectionNames ! Suc 0 = ''demographics''"
  by (simp add: sectionNames_def)

lemma body_sections:
  "drop 2 sectionNames =
     [''allergies'', ''encounters'', ''immunizations'', ''medications'', ''payers'',
      ''plan_of_care'', ''problems'', ''procedures'', ''results'', ''social_history'', ''vitals'']"
  by (simp add: sectionNames_def)

lemma count_sections_truthy: "0 < count_sections data \<Longrightarrow> truthy data"
  by (cases data) (auto simp: count_sections_def)

lemma count_sections_not_nullish: "0 < count_sections (unwrap record) \<Longrightarrow> \<not> nullish record"
  by (cases "record") (auto simp: count_sections_def unwrap_def)

text \<open>
  The loop visits the names of \<open>sectionNames\<close> from its start index on, in table order.
\<close>

lemma sections_loop_run:
  "sections_loop c data sb i = run_sections c data (drop i sectionNames) sb"
proof (induction c data sb i rule: sections_loop.induct)
  case (1 c data sb i)
  show ?case
  proof (cases "i < length sectionNames")
    case True
    then have d: "drop i sectionNames = sectionNames ! i # drop (Suc i) sectionNames"
      by (simp add: Cons_nth_drop_Suc)
    show ?thesis
      using True "1.IH"
      by (subst sections_loop.simps) (simp add: d split: sum.splits prod.splits)
  next
    case False
    then show ?thesis
      by (subst sections_loop.simps) simp
  qed
qed

text \<open>
  What a normal return of \<open>genWholeCCDA\<close> means, for any collaborators: both id-block
  calls and the demographics call returned, and the document is the header followed by
  recordTarget and, when sections were counted, by component.
\<close>

lemma genWholeCCDA_returns:
  assumes "genWholeCCDA c record = Inr (ret, doc)"
  shows "\<exists>x pr1 pr2 r.
           \<not> nullish record
         \<and> libCCDAGen_id c header_before_id
              (js_and (get record ''meta'') (get (get record ''meta'') ''identifiers'')) = Inr x
         \<and> libCCDAGen_id c (new_node ''patientRole'' [])
              (js_and (get (unwrap record) ''demographics'')
                 (get (get (unwrap record) ''demographics'') ''identifiers'')) = Inr pr1
         \<and> gen c (get (unwrap record) ''demographics'') True pr1 ''demographics'' = Inr (r, pr2)
         \<and> (if 0 < count_sections (unwrap record)
            then \<exists>sb. sections_loop c (unwrap record) (new_node ''structuredBody'' []) 2 = Inr sb
                   \<and> doc = append_child
                       (append_child (header_after_id x) (Elem ''recordTarget'' [] [] [pr2]))
                       (Elem ''component'' [] [] [sb])
                   \<and> ret = Some doc
            else doc = append_child (header_after_id x) (Elem ''recordTarget'' [] [] [pr2])
                   \<and> ret = None)"
  using assms
  by (auto simp: genWholeCCDA_def Let_def sectionNames_1 new_node_def append_child_def
           split: if_splits sum.splits prod.splits)

text \<open>
  With appending collaborators the assembly always returns, and the document has a
  closed form.
\<close>

lemma run_sections_appending:
  assumes "truthy data"
  shows "run_sections (appending_collaborators cs ff bf idf) data
           [''allergies'', ''encounters'', ''immunizations'', ''medications'', ''payers'',
            ''plan_of_care'', ''problems'', ''procedures'', ''results'', ''social_history'',
            ''vitals''] sb =
         Inr (add_children sb
           (ff allergiesSectionEntriesRequired data
            @ ff encountersSectionEntriesRequired data
            @ ff immunizationsSectionEntriesRequired data
            @ ff medicationsSectionEntriesRequired data
            @ (if truthy (get data ''payers'') then bf ''payers'' (get data ''payers'') cs True else [])
            @ ff planOfCareSectionEntriesRequired data
            @ ff problemsSectionEntriesRequired data
            @ ff proceduresSectionEntriesRequired data
            @ (if truthy (get data ''results'') then bf ''results'' (get data ''results'') cs True else [])
            @ (if truthy (get data ''social_history'')
               then bf ''social_history'' (get data ''social_history'') cs True else [])
            @ (if truthy (get data ''vitals'') then bf ''vitals'' (get data ''vitals'') cs True else [])))"
  using assms
  by (simp add: section_step_def gen_def fill_def appending_collaborators_def
        appending_generator_def add_children_eq Let_def)

lemma run_body_appending:
  assumes "truthy data"
  shows "run_sections (appending_collaborators cs ff bf idf) data (drop 2 sectionNames) sb =
         Inr (add_children sb
           (ff allergiesSectionEntriesRequired data
            @ ff encountersSectionEntriesRequired data
            @ ff immunizationsSectionEntriesRequired data
            @ ff medicationsSectionEntriesRequired data
            @ (if truthy (get data ''payers'') then bf ''payers'' (get data ''payers'') cs True else [])
            @ ff planOfCareSectionEntriesRequired data
            @ ff problemsSectionEntriesRequired data
            @ ff proceduresSectionEntriesRequired data
            @ (if truthy (get data ''results'') then bf ''results'' (get data ''results'') cs True else [])
            @ (if truthy (get data ''social_history'')
               then bf ''social_history'' (get data ''social_history'') cs True else [])
            @ (if truthy (get data ''vitals'') then bf ''vitals'' (get data ''vitals'') cs True else [])))"
  unfolding body_sections using assms by (rule run_sections_appending)

lemma genWholeCCDA_appending:
  assumes "\<not> nullish record"
  shows "genWholeCCDA (appending_collaborators cs ff bf idf) record =
     (let data = unwrap record;
          meta = get record ''meta'';
          demo = get data ''demographics'';
          hdr = add_children (header_after_id (add_children header_before_id
                    (idf (js_and meta (get meta ''identifiers'')))))
                  [Elem ''recordTarget'' [] []
                     [Elem ''patientRole'' [] []
                        (idf (js_and demo (get demo ''identifiers''))
                         @ (if truthy demo then bf ''demographics'' demo cs True else []))]]
      in if 0 < count_sections data
         then (case run_sections (appending_collaborators cs ff bf idf) data (drop 2 sectionNames)
                      (Elem ''structuredBody'' [] [] []) of
                 Inl e \<Rightarrow> Inl e
               | Inr sb \<Rightarrow>
                  Inr (Some (add_children hdr [Elem ''component'' [] [] [sb]]),
                       add_children hdr [Elem ''component'' [] [] [sb]]))
         else Inr (None, hdr))"
  using assms
  by (simp add: genWholeCCDA_def sections_loop_run sectionNames_1 gen_def
        appending_collaborators_def appending_generator_def add_children_eq Let_def
        new_node_def append_child_def split: sum.splits)

lemma genWholeCCDA_appending_returns:
  assumes "\<not> nullish record"
  shows "\<exists>ret doc. genWholeCCDA (appending_collaborators cs ff bf idf) record = Inr (ret, doc)"
proof (cases "0 < count_sections (unwrap record)")
  case True
  then have "truthy (unwrap record)"
    by (rule count_sections_truthy)
  then show ?thesis
    using True
    by (simp only: genWholeCCDA_appending [OF assms] run_body_appending Let_def) simp
next
  case False
  then show ?thesis
    by (simp only: genWholeCCDA_appending [OF assms] Let_def) simp
qed

text \<open>
  A loop that returns has gone through the eleven body sections one after the other,
  each step starting from the node the previous one left.
\<close>

lemma run_sections_Cons_Inr:
  "run_sections c data (name # names) sb = Inr sb' \<longleftrightarrow>
     (\<exists>r sb1. section_step c data sb name = Inr (r, sb1) \<and> run_sections c data names sb1 = Inr sb')"
  by (auto split: sum.splits)

lemma sections_loop_chain:
  assumes "sections_loop c data sb0 2 = Inr sb11"
  shows "\<exists>r1 sb1 r2 sb2 r3 sb3 r4 sb4 r5 sb5 r6 sb6 r7 sb7 r8 sb8 r9 sb9 r10 sb10 r11.
           section_step c data sb0 ''allergies'' = Inr (r1, sb1)
         \<and> section_step c data sb1 ''encounters'' = Inr (r2, sb2)
         \<and> section_step c data sb2 ''immunizations'' = Inr (r3, sb3)
         \<and> section_step c data sb3 ''medications'' = Inr (r4, sb4)
         \<and> section_step c data sb4 ''payers'' = Inr (r5, sb5)
         \<and> section_step c data sb5 ''plan_of_care'' = Inr (r6, sb6)
         \<and> section_step c data sb6 ''problems'' = Inr (r7, sb7)
         \<and> section_step c data sb7 ''procedures'' = Inr (r8, sb8)
         \<and> section_step c data sb8 ''results'' = Inr (r9, sb9)
         \<and> section_step c data sb9 ''social_history'' = Inr (r10, sb10)
         \<and> section_step c data sb10 ''vitals'' = Inr (r11, sb11)"
proof -
  have "run_sections c data
          [''allergies'', ''encounters'', ''immunizations'', ''medications'', ''payers'',
           ''plan_of_care'', ''problems'', ''procedures'', ''results'', ''social_history'',
           ''vitals''] sb0 = Inr sb11"
    using assms by (simp only: sections_loop_run body_sections)
  then show ?thesis
    apply (simp only: run_sections_Cons_Inr run_sections.simps(1) sum.inject)
    apply (elim exE conjE)
    apply hypsubst
    apply (intro exI conjI)
    apply assumption+
    done
qed

text \<open>
  The loop step of a section, as a single-section call; a template-filler statement
  that returns; and the structuredBody of a document whose record had sections counted.
\<close>

lemma section_step_as_gen:
  "section_step c data sb ''allergies'' = gen c data False sb ''allergies''"
  "section_step c data sb ''encounters'' = gen c data False sb ''encounters''"
  "section_step c data sb ''immunizations'' = gen c data False sb ''immunizations''"
  "section_step c data sb ''medications'' = gen c data False sb ''medications''"
  "section_step c data sb ''plan_of_care'' = gen c data False sb ''plan_of_care''"
  "section_step c data sb ''problems'' = gen c data False sb ''problems''"
  "section_step c data sb ''procedures'' = gen c data False sb ''procedures''"
  "section_step c data sb ''payers'' = gen c (get data ''payers'') True sb ''payers''"
  "section_step c data sb ''results'' = gen c (get data ''results'') True sb ''results''"
  "section_step c data sb ''social_history'' =
        gen c (get data ''social_history'') True sb ''social_history''"
  "section_step c data sb ''vitals'' = gen c (get data ''vitals'') True sb ''vitals''"
  by (simp_all add: section_step_def gen_def)

lemma fill_Inr:
  "fill c xmlDoc data t = Inr (r, xmlDoc') \<longleftrightarrow>
     r = None \<and> fillUsingTemplate c xmlDoc data t = Inr xmlDoc'"
  by (auto simp: fill_def split: sum.splits)

lemma genWholeCCDA_body:
  assumes "genWholeCCDA c record = Inr (ret, doc)" and "0 < count_sections (unwrap record)"
  shows "\<exists>hdr sb. sections_loop c (unwrap record) (new_node ''structuredBody'' []) 2 = Inr sb
                \<and> child_nodes doc = hdr @ [Elem ''component'' [] [] [sb]]
                \<and> ret = Some doc"
proof -
  obtain x pr2 where
    d: "if 0 < count_sections (unwrap record)
            then \<exists>sb. sections_loop c (unwrap record) (new_node ''structuredBody'' []) 2 = Inr sb
                   \<and> doc = append_child
                       (append_child (header_after_id x) (Elem ''recordTarget'' [] [] [pr2]))
                       (Elem ''component'' [] [] [sb])
                   \<and> ret = Some doc
            else doc = append_child (header_after_id x) (Elem ''recordTarget'' [] [] [pr2])
                   \<and> ret = None"
    using genWholeCCDA_returns [OF assms(1)] by blast
  then obtain sb where
    l: "sections_loop c (unwrap record) (new_node ''structuredBody'' []) 2 = Inr sb"
    and e: "doc = append_child
                       (append_child (header_after_id x) (Elem ''recordTarget'' [] [] [pr2]))
                       (Elem ''component'' [] [] [sb])"
    and r: "ret = Some doc"
    using assms(2) by auto
  have "child_nodes doc =
          (child_nodes (header_after_id x) @ [Elem ''recordTarget'' [] [] [pr2]])
          @ [Elem ''component'' [] [] [sb]]"
    by (simp add: e append_child_def)
  then show ?thesis
    using l r by blast
qed

lemmas run_simps =
  section_step_def gen_def fill_def echo_def appending_collaborators_def
  appending_generator_def add_children_eq Let_def

section \<open>The single-section entry point\<close>

text \<open>
  C7. For every section name and every parent node, \<open>gen\<close> called with absent (falsy)
  section data returns the parent node and leaves it unchanged; no collaborator is
  called, so nothing can be raised.
\<close>

theorem gen_absent_data_passthrough:
  "\<not> truthy d \<Longrightarrow> gen c d CCD parent section_name = Inr (Some parent, parent)"
  by (simp add: gen_def)

text \<open>
  C7, at a concrete input: \<open>null\<close> data for the allergies section, with collaborators
  that would raise if they were called.
\<close>

theorem gen_absent_data_passthrough_witness:
  "\<not> truthy JNull
   \<and> gen raising JNull False (new_node ''section'' []) ''allergies''
       = Inr (Some (new_node ''section'' []), new_node ''section'' [])"
  using gen_absent_data_passthrough [of JNull raising False "new_node ''section'' []" "''allergies''"]
  by simp

text \<open>
  C8. For every section name outside the thirteen names of the registry and every
  present (truthy) data value, \<open>gen\<close> raises nothing, returns \<open>undefined\<close> and leaves
  the parent node unchanged.
\<close>

theorem gen_unknown_section_noop:
  "section_name \<notin> set sectionNames \<Longrightarrow> truthy d \<Longrightarrow>
     gen c d CCD parent section_name = Inr (None, parent)"
  by (simp add: gen_def sectionNames_def)

text \<open>
  C8, at a concrete input: the name \<open>family_history\<close> with an empty array as data, with
  collaborators that would raise if they were called.
\<close>

theorem gen_unknown_section_noop_witness:
  "''family_history'' \<notin> set sectionNames \<and> truthy (JArr [])
   \<and> gen raising (JArr []) True (new_node ''section'' []) ''family_history''
       = Inr (None, new_node ''section'' [])"
  using gen_unknown_section_noop [of "''family_history''" "JArr []" raising True "new_node ''section'' []"]
  by (simp add: sectionNames_def)

text \<open>
  C9. With present (truthy) data, \<open>gen\<close> returns what the section generator returns
  for the five bespoke sections (demographics, payers, results, social_history,
  vitals); for every other name, the seven template-filled sections included, a normal
  return is \<open>undefined\<close>. Returning the parent node itself is left to the absent-data
  branch (C7).
\<close>

theorem gen_returned_value:
  "truthy d \<Longrightarrow>
     (section_name = ''demographics'' \<longrightarrow>
        gen c d CCD parent section_name = demographics c d (codeSystems c) CCD parent)
   \<and> (section_name = ''payers'' \<longrightarrow>
        gen c d CCD parent section_name = payers c d (codeSystems c) CCD parent)
   \<and> (section_name = ''results'' \<longrightarrow>
        gen c d CCD parent section_name = results c d (codeSystems c) CCD parent)
   \<and> (section_name = ''social_history'' \<longrightarrow>
        gen c d CCD parent section_name = social_history c d (codeSystems c) CCD parent)
   \<and> (section_name = ''vitals'' \<longrightarrow>
        gen c d CCD parent section_name = vitals c d (codeSystems c) CCD parent)
   \<and> (section_name \<notin> {''demographics'', ''payers'', ''results'', ''social_history'', ''vitals''} \<longrightarrow>
        (\<forall>r parent'. gen c d CCD parent section_name = Inr (r, parent') \<longrightarrow> r = None))"
  by (auto simp: gen_def fill_def split: sum.splits if_splits)

text \<open>
  C9, at concrete inputs: payers (bespoke) and allergies (template-filled) with an empty
  array as data.
\<close>

theorem gen_returned_value_witness:
  "truthy (JArr [])
   \<and> gen echo (JArr []) False (new_node ''section'' []) ''payers''
       = payers echo (JArr []) (codeSystems echo) False (new_node ''section'' [])
   \<and> gen echo (JArr []) False (new_node ''section'' []) ''allergies''
       = Inr (None, add_children (new_node ''section'' [])
                      [Elem ''allergiesSectionEntriesRequired'' [] [] [json_to_xml (JArr [])]])"
proof -
  have g: "gen echo (JArr []) False (new_node ''section'' []) ''allergies''
       = Inr (fst (None :: xml option, ()), add_children (new_node ''section'' [])
                      [Elem ''allergiesSectionEntriesRequired'' [] [] [json_to_xml (JArr [])]])"
    by (simp add: gen_def fill_def echo_def appending_collaborators_def)
  show ?thesis
    using gen_returned_value [of "JArr []" "''payers''" echo False "new_node ''section'' []"]
          gen_returned_value [of "JArr []" "''allergies''" echo False "new_node ''section'' []"]
          g
    by simp
qed

section \<open>What the whole-document loop passes on\<close>

text \<open>
  C1 as stated fails: the claim has the template filler receive the section's own slice
  and the bespoke generators the entire data object. On a record with allergies and
  payers, the allergies step is not the template filler run on \<open>data.allergies\<close>, and the
  payers step is not the payers generator run on the entire data object.
\<close>

theorem slice_to_template_filler_counterexample:
  "section_step echo sample_body_record (new_node ''structuredBody'' []) ''allergies''
     \<noteq> fill echo (new_node ''structuredBody'' []) (get sample_body_record ''allergies'')
           allergiesSectionEntriesRequired
   \<and> section_step echo sample_body_record (new_node ''structuredBody'' []) ''payers''
     \<noteq> payers echo sample_body_record (codeSystems echo) True (new_node ''structuredBody'' [])"
  by (simp add: run_simps sample_body_record_def new_node_def)

text \<open>
  C1, amended. For every record on which whole-document assembly returns and creates a
  structuredBody, with \<open>data\<close> the unwrapped data object: the structuredBody of the
  document is built by the collaborator calls below, in this order, each on the node the
  previous one left. For each of the seven template-filled sections the template filler
  is handed the entire unwrapped data object; for each of the four bespoke body sections
  the generator is handed that section's own slice \<open>data[sectionName]\<close>, with the flag
  set, and is not called when the slice is absent.
\<close>

theorem whole_document_passes_data_and_slices:
  assumes "genWholeCCDA c record = Inr (ret, doc)"
      and "data = unwrap record"
      and "0 < count_sections data"
  shows "\<exists>hdr sb1 sb2 sb3 sb4 sb5 sb6 sb7 sb8 sb9 sb10 sb11.
           fillUsingTemplate c (new_node ''structuredBody'' []) data
             allergiesSectionEntriesRequired = Inr sb1
         \<and> fillUsingTemplate c sb1 data encountersSectionEntriesRequired = Inr sb2
         \<and> fillUsingTemplate c sb2 data immunizationsSectionEntriesRequired = Inr sb3
         \<and> fillUsingTemplate c sb3 data medicationsSectionEntriesRequired = Inr sb4
         \<and> (if truthy (get data ''payers'')
            then \<exists>r. payers c (get data ''payers'') (codeSystems c) True sb4 = Inr (r, sb5)
            else sb5 = sb4)
         \<and> fillUsingTemplate c sb5 data planOfCareSectionEntriesRequired = Inr sb6
         \<and> fillUsingTemplate c sb6 data problemsSectionEntriesRequired = Inr sb7
         \<and> fillUsingTemplate c sb7 data proceduresSectionEntriesRequired = Inr sb8
         \<and> (if truthy (get data ''results'')
            then \<exists>r. results c (get data ''results'') (codeSystems c) True sb8 = Inr (r, sb9)
            else sb9 = sb8)
         \<and> (if truthy (get data ''social_history'')
            then \<exists>r. social_history c (get data ''social_history'') (codeSystems c) True sb9
                      = Inr (r, sb10)
            else sb10 = sb9)
         \<and> (if truthy (get data ''vitals'')
            then \<exists>r. vitals c (get data ''vitals'') (codeSystems c) True sb10 = Inr (r, sb11)
            else sb11 = sb10)
         \<and> child_nodes doc = hdr @ [Elem ''component'' [] [] [sb11]]"
proof -
  have pos: "0 < count_sections (unwrap record)"
    using assms(2,3) by simp
  obtain hdr sb11 where
    l: "sections_loop c data (new_node ''structuredBody'' []) 2 = Inr sb11"
    and ch: "child_nodes doc = hdr @ [Elem ''component'' [] [] [sb11]]"
    using genWholeCCDA_body [OF assms(1) pos] unfolding assms(2) [symmetric] by blast
  have t: "truthy data"
    using assms(3) by (rule count_sections_truthy)
  obtain r1 sb1 r2 sb2 r3 sb3 r4 sb4 r5 sb5 r6 sb6 r7 sb7 r8 sb8 r9 sb9 r10 sb10 r11 where
    s1: "section_step c data (new_node ''structuredBody'' []) ''allergies'' = Inr (r1, sb1)"
    and s2: "section_step c data sb1 ''encounters'' = Inr (r2, sb2)"
    and s3: "section_step c data sb2 ''immunizations'' = Inr (r3, sb3)"
    and s4: "section_step c data sb3 ''medications'' = Inr (r4, sb4)"
    and s5: "section_step c data sb4 ''payers'' = Inr (r5, sb5)"
    and s6: "section_step c data sb5 ''plan_of_care'' = Inr (r6, sb6)"
    and s7: "section_step c data sb6 ''problems'' = Inr (r7, sb7)"
    and s8: "section_step c data sb7 ''procedures'' = Inr (r8, sb8)"
    and s9: "section_step c data sb8 ''results'' = Inr (r9, sb9)"
    and s10: "section_step c data sb9 ''social_history'' = Inr (r10, sb10)"
    and s11: "section_step c data sb10 ''vitals'' = Inr (r11, sb11)"
    using sections_loop_chain [OF l] by (elim exE conjE)
  have f1: "fillUsingTemplate c (new_node ''structuredBody'' []) data
              allergiesSectionEntriesRequired = Inr sb1"
    using s1 t by (simp add: section_step_def gen_def fill_Inr)
  have f2: "fillUsingTemplate c sb1 data encountersSectionEntriesRequired = Inr sb2"
    using s2 t by (simp add: section_step_def gen_def fill_Inr)
  have f3: "fillUsingTemplate c sb2 data immunizationsSectionEntriesRequired = Inr sb3"
    using s3 t by (simp add: section_step_def gen_def fill_Inr)
  have f4: "fillUsingTemplate c sb3 data medicationsSectionEntriesRequired = Inr sb4"
    using s4 t by (simp add: section_step_def gen_def fill_Inr)
  have f5: "if truthy (get data ''payers'')
            then \<exists>r. payers c (get data ''payers'') (codeSystems c) True sb4 = Inr (r, sb5)
            else sb5 = sb4"
    using s5 by (auto simp: section_step_def gen_def)
  have f6: "fillUsingTemplate c sb5 data planOfCareSectionEntriesRequired = Inr sb6"
    using s6 t by (simp add: section_step_def gen_def fill_Inr)
  have f7: "fillUsingTemplate c sb6 data problemsSectionEntriesRequired = Inr sb7"
    using s7 t by (simp add: section_step_def gen_def fill_Inr)
  have f8: "fillUsingTemplate c sb7 data proceduresSectionEntriesRequired = Inr sb8"
    using s8 t by (simp add: section_step_def gen_def fill_Inr)
  have f9: "if truthy (get data ''results'')
            then \<exists>r. results c (get data ''results'') (codeSystems c) True sb8 = Inr (r, sb9)
            else sb9 = sb8"
    using s9 by (auto simp: section_step_def gen_def)
  have f10: "if truthy (get data ''social_history'')
            then \<exists>r. social_history c (get data ''social_history'') (codeSystems c) True sb9
                      = Inr (r, sb10)
            else sb10 = sb9"
    using s10 by (auto simp: section_step_def gen_def)
  have f11: "if truthy (get data ''vitals'')
            then \<exists>r. vitals c (get data ''vitals'') (codeSystems c) True sb10 = Inr (r, sb11)
            else sb11 = sb10"
    using s11 by (auto simp: section_step_def gen_def)
  show ?thesis
    using f1 f2 f3 f4 f5 f6 f7 f8 f9 f10 f11 ch
    by (intro exI conjI)
qed

text \<open>
  C1, amended, at a concrete input: the record with payers and allergies. The template
  filler gets the whole record, the payers generator gets the payers array.
\<close>

theorem whole_document_passes_data_and_slices_witness:
  "0 < count_sections (unwrap sample_body_record)
   \<and> (\<exists>ret doc hdr sb1 sb4 sb5 sb11.
         genWholeCCDA echo sample_body_record = Inr (ret, doc)
       \<and> fillUsingTemplate echo (new_node ''structuredBody'' []) sample_body_record
             allergiesSectionEntriesRequired = Inr sb1
       \<and> payers echo (JArr [JObj [(''plan'', JStr ''A'')]]) (codeSystems echo) True sb4
             = Inr (Some sb5, sb5)
       \<and> child_nodes doc = hdr @ [Elem ''component'' [] [] [sb11]]
       \<and> map node_name (child_nodes sb11) =
           [''allergiesSectionEntriesRequired'', ''encountersSectionEntriesRequired'',
            ''immunizationsSectionEntriesRequired'', ''medicationsSectionEntriesRequired'',
            ''payers'', ''planOfCareSectionEntriesRequired'',
            ''problemsSectionEntriesRequired'', ''proceduresSectionEntriesRequired''])"
proof -
  have u: "unwrap sample_body_record = sample_body_record"
    by (simp add: unwrap_def sample_body_record_def)
  have pos: "0 < count_sections (unwrap sample_body_record)"
    by (simp add: unwrap_def count_sections_def sample_body_record_def)
  have "\<not> nullish sample_body_record"
    by (simp add: sample_body_record_def)
  then obtain ret doc where r: "genWholeCCDA echo sample_body_record = Inr (ret, doc)"
    unfolding echo_def using genWholeCCDA_appending_returns by blast
  have g: "get sample_body_record ''payers'' = JArr [JObj [(''plan'', JStr ''A'')]]"
          "get sample_body_record ''results'' = JUndefined"
          "get sample_body_record ''social_history'' = JUndefined"
          "get sample_body_record ''vitals'' = JUndefined"
    by (simp_all add: sample_body_record_def)
  show ?thesis
    using pos r whole_document_passes_data_and_slices [OF r refl pos]
    unfolding u g
    by (auto simp: echo_def appending_collaborators_def appending_generator_def
          add_children_eq new_node_def Let_def)
qed

text \<open>
  C2 as stated fails: \<open>gen(d, false, parent, X)\<close> on section X's slice does not leave the
  parent as the whole-document step for X does. For allergies the step passes the
  entire data object rather than the slice; for payers it passes the flag \<open>true\<close>
  rather than \<open>false\<close>.
\<close>

theorem single_section_same_as_whole_document_counterexample:
  "parent_after (gen echo (get sample_body_record ''allergies'') False
                   (new_node ''structuredBody'' []) ''allergies'')
     \<noteq> parent_after (section_step echo sample_body_record (new_node ''structuredBody'' []) ''allergies'')
   \<and> parent_after (gen echo (get sample_body_record ''payers'') False
                     (new_node ''structuredBody'' []) ''payers'')
     \<noteq> parent_after (section_step echo sample_body_record (new_node ''structuredBody'' []) ''payers'')"
  by (simp add: run_simps parent_after_def sample_body_record_def new_node_def)

text \<open>
  C2, amended. For every record on which whole-document assembly returns and creates a
  structuredBody, with \<open>data\<close> the unwrapped data object: the structuredBody of the
  document is what the single-section calls below leave, run in this order from an empty
  structuredBody node, each on the node the previous one left. For a template-filled
  section X the call is \<open>gen(data, false, sb, X)\<close> on the entire unwrapped data object
  (the flag is not passed on to the template filler); for a bespoke body section X it is
  \<open>gen(data[X], true, sb, X)\<close> on X's slice with the flag set.
\<close>

theorem whole_document_steps_are_single_section_calls:
  assumes "genWholeCCDA c record = Inr (ret, doc)"
      and "data = unwrap record"
      and "0 < count_sections data"
  shows "\<exists>hdr r1 sb1 r2 sb2 r3 sb3 r4 sb4 r5 sb5 r6 sb6 r7 sb7 r8 sb8 r9 sb9 r10 sb10 r11 sb11.
           gen c data False (new_node ''structuredBody'' []) ''allergies'' = Inr (r1, sb1)
         \<and> gen c data False sb1 ''encounters'' = Inr (r2, sb2)
         \<and> gen c data False sb2 ''immunizations'' = Inr (r3, sb3)
         \<and> gen c data False sb3 ''medications'' = Inr (r4, sb4)
         \<and> gen c (get data ''payers'') True sb4 ''payers'' = Inr (r5, sb5)
         \<and> gen c data False sb5 ''plan_of_care'' = Inr (r6, sb6)
         \<and> gen c data False sb6 ''problems'' = Inr (r7, sb7)
         \<and> gen c data False sb7 ''procedures'' = Inr (r8, sb8)
         \<and> gen c (get data ''results'') True sb8 ''results'' = Inr (r9, sb9)
         \<and> gen c (get data ''social_history'') True sb9 ''social_history'' = Inr (r10, sb10)
         \<and> gen c (get data ''vitals'') True sb10 ''vitals'' = Inr (r11, sb11)
         \<and> child_nodes doc = hdr @ [Elem ''component'' [] [] [sb11]]"
proof -
  have pos: "0 < count_sections (unwrap record)"
    using assms(2,3) by simp
  obtain hdr sb11 where
    l: "sections_loop c data (new_node ''structuredBody'' []) 2 = Inr sb11"
    and ch: "child_nodes doc = hdr @ [Elem ''component'' [] [] [sb11]]"
    using genWholeCCDA_body [OF assms(1) pos] unfolding assms(2) [symmetric] by blast
  obtain r1 sb1 r2 sb2 r3 sb3 r4 sb4 r5 sb5 r6 sb6 r7 sb7 r8 sb8 r9 sb9 r10 sb10 r11 where
    s1: "section_step c data (new_node ''structuredBody'' []) ''allergies'' = Inr (r1, sb1)"
    and s2: "section_step c data sb1 ''encounters'' = Inr (r2, sb2)"
    and s3: "section_step c data sb2 ''immunizations'' = Inr (r3, sb3)"
    and s4: "section_step c data sb3 ''medications'' = Inr (r4, sb4)"
    and s5: "section_step c data sb4 ''payers'' = Inr (r5, sb5)"
    and s6: "section_step c data sb5 ''plan_of_care'' = Inr (r6, sb6)"
    and s7: "section_step c data sb6 ''problems'' = Inr (r7, sb7)"
    and s8: "section_step c data sb7 ''procedures'' = Inr (r8, sb8)"
    and s9: "section_step c data sb8 ''results'' = Inr (r9, sb9)"
    and s10: "section_step c data sb9 ''social_history'' = Inr (r10, sb10)"
    and s11: "section_step c data sb10 ''vitals'' = Inr (r11, sb11)"
    using sections_loop_chain [OF l] by (elim exE conjE)
  note eq = section_step_as_gen [of c data]
  show ?thesis
    using s1 s2 s3 s4 s5 s6 s7 s8 s9 s10 s11 ch
    unfolding eq
    by (intro exI conjI)
qed

text \<open>
  C2, amended, at a concrete input: the wrapped record; the data object is the content
  of its wrapper, and the vitals call gets the vitals array.
\<close>

theorem whole_document_steps_are_single_section_calls_witness:
  "0 < count_sections (unwrap sample_wrapped_record)
   \<and> get (unwrap sample_wrapped_record) ''vitals'' = JArr [JStr ''height'']
   \<and> (\<exists>ret doc hdr r1 sb1 sb10 r11 sb11.
         genWholeCCDA echo sample_wrapped_record = Inr (ret, doc)
       \<and> gen echo (unwrap sample_wrapped_record) False (new_node ''structuredBody'' [])
             ''allergies'' = Inr (r1, sb1)
       \<and> gen echo (JArr [JStr ''height'']) True sb10 ''vitals'' = Inr (r11, sb11)
       \<and> child_nodes doc = hdr @ [Elem ''component'' [] [] [sb11]])"
proof -
  have pos: "0 < count_sections (unwrap sample_wrapped_record)"
    by (simp add: unwrap_def count_sections_def sample_wrapped_record_def)
  have v: "get (unwrap sample_wrapped_record) ''vitals'' = JArr [JStr ''height'']"
    by (simp add: unwrap_def sample_wrapped_record_def)
  have "\<not> nullish sample_wrapped_record"
    by (simp add: sample_wrapped_record_def)
  then obtain ret doc where r: "genWholeCCDA echo sample_wrapped_record = Inr (ret, doc)"
    unfolding echo_def using genWholeCCDA_appending_returns by blast
  show ?thesis
    using pos v r whole_document_steps_are_single_section_calls [OF r refl pos]
    unfolding v
    by (elim exE conjE) (intro exI conjI)
qed

section \<open>The assembled document\<close>

text \<open>
  C3. The claim expects no structuredBody for a flat record whose only keys are meta and
  demographics. The code counts every key other than demographics, so meta is counted
  as a section: the count is 1, a component/structuredBody is created and the
  serialized document is returned. The comments in \<open>genWholeCCDA\<close> say that sections are
  counted and that the body is for "more sections than just demographics"; and the same
  content under a \<open>data\<close> wrapper is counted as 0 and gets no component.
\<close>

theorem meta_counted_as_section:
  "count_sections (unwrap sample_flat_record) = 1
   \<and> (\<exists>doc. genWholeCCDA echo sample_flat_record = Inr (Some doc, doc)
          \<and> map node_name (select_path [''component'', ''structuredBody''] doc)
              = [''structuredBody''])
   \<and> count_sections (unwrap sample_wrapped_header_only) = 0
   \<and> (\<exists>doc. genWholeCCDA echo sample_wrapped_header_only = Inr (None, doc)
          \<and> select_path [''component''] doc = [])"
proof -
  have nn: "\<not> nullish sample_flat_record"
    by (simp add: sample_flat_record_def)
  have u: "unwrap sample_flat_record = sample_flat_record"
    by (simp add: unwrap_def sample_flat_record_def)
  have c: "count_sections sample_flat_record = 1"
    by (simp add: count_sections_def sample_flat_record_def)
  have t: "truthy sample_flat_record"
    by (simp add: sample_flat_record_def)
  have flat: "\<exists>doc. genWholeCCDA echo sample_flat_record = Inr (Some doc, doc)
          \<and> map node_name (select_path [''component'', ''structuredBody''] doc)
              = [''structuredBody'']"
    unfolding echo_def
    by (simp only: genWholeCCDA_appending [OF nn] run_body_appending [OF t] Let_def u c)
       (simp add: add_children_eq header_after_id_eq header_before_id_eq children_named_def
          sample_flat_record_def js_and_def)
  have nn': "\<not> nullish sample_wrapped_header_only"
    by (simp add: sample_wrapped_header_only_def)
  have c': "count_sections (unwrap sample_wrapped_header_only) = 0"
    by (simp add: count_sections_def unwrap_def sample_wrapped_header_only_def)
  have wrapped: "\<exists>doc. genWholeCCDA echo sample_wrapped_header_only = Inr (None, doc)
          \<and> select_path [''component''] doc = []"
    unfolding echo_def
    by (simp only: genWholeCCDA_appending [OF nn'] Let_def c')
       (simp add: add_children_eq header_after_id_eq header_before_id_eq children_named_def
          sample_wrapped_header_only_def js_and_def unwrap_def)
  show ?thesis
    using u c flat c' wrapped by simp
qed

text \<open>
  C4. Whenever a structuredBody is created, and the collaborators append their
  fragments, the fragments under it are those of allergies, encounters, immunizations,
  medications, payers, plan_of_care, problems, procedures, results, social_history and
  vitals in this order, whatever the order of the keys in the record.
\<close>

theorem structured_body_canonical_order:
  assumes "data = unwrap record" and "0 < count_sections data"
  shows "\<exists>doc hdr.
           genWholeCCDA (appending_collaborators cs ff bf idf) record = Inr (Some doc, doc)
         \<and> child_nodes doc = hdr @
             [Elem ''component'' [] []
               [Elem ''structuredBody'' [] []
                 (ff allergiesSectionEntriesRequired data
                  @ ff encountersSectionEntriesRequired data
                  @ ff immunizationsSectionEntriesRequired data
                  @ ff medicationsSectionEntriesRequired data
                  @ (if truthy (get data ''payers'')
                     then bf ''payers'' (get data ''payers'') cs True else [])
                  @ ff planOfCareSectionEntriesRequired data
                  @ ff problemsSectionEntriesRequired data
                  @ ff proceduresSectionEntriesRequired data
                  @ (if truthy (get data ''results'')
                     then bf ''results'' (get data ''results'') cs True else [])
                  @ (if truthy (get data ''social_history'')
                     then bf ''social_history'' (get data ''social_history'') cs True else [])
                  @ (if truthy (get data ''vitals'')
                     then bf ''vitals'' (get data ''vitals'') cs True else []))]]"
proof -
  have pos: "0 < count_sections (unwrap record)"
    using assms by simp
  have nn: "\<not> nullish record"
    using pos by (rule count_sections_not_nullish)
  have t: "truthy (unwrap record)"
    using pos by (rule count_sections_truthy)
  have "genWholeCCDA (appending_collaborators cs ff bf idf) record =
          (let hdr = add_children (header_after_id (add_children header_before_id
                    (idf (js_and (get record ''meta'') (get (get record ''meta'') ''identifiers'')))))
                  [Elem ''recordTarget'' [] []
                     [Elem ''patientRole'' [] []
                        (idf (js_and (get data ''demographics'')
                                (get (get data ''demographics'') ''identifiers''))
                         @ (if truthy (get data ''demographics'')
                            then bf ''demographics'' (get data ''demographics'') cs True else []))]];
               sb = add_children (Elem ''structuredBody'' [] [] [])
                 (ff allergiesSectionEntriesRequired data
                  @ ff encountersSectionEntriesRequired data
                  @ ff immunizationsSectionEntriesRequired data
                  @ ff medicationsSectionEntriesRequired data
                  @ (if truthy (get data ''payers'')
                     then bf ''payers'' (get data ''payers'') cs True else [])
                  @ ff planOfCareSectionEntriesRequired data
                  @ ff problemsSectionEntriesRequired data
                  @ ff proceduresSectionEntriesRequired data
                  @ (if truthy (get data ''results'')
                     then bf ''results'' (get data ''results'') cs True else [])
                  @ (if truthy (get data ''social_history'')
                     then bf ''social_history'' (get data ''social_history'') cs True else [])
                  @ (if truthy (get data ''vitals'')
                     then bf ''vitals'' (get data ''vitals'') cs True else []))
           in Inr (Some (add_children hdr [Elem ''component'' [] [] [sb]]),
                   add_children hdr [Elem ''component'' [] [] [sb]]))"
    using pos
    by (simp only: genWholeCCDA_appending [OF nn] run_body_appending [OF t] Let_def assms(1))
       simp
  then show ?thesis
    by (simp add: Let_def add_children_eq)
qed

text \<open>
  C4, at a concrete input: a record whose data lists vitals before allergies.
\<close>

theorem structured_body_canonical_order_witness:
  "0 < count_sections (unwrap sample_wrapped_record)
   \<and> (\<exists>doc hdr sb.
         genWholeCCDA echo sample_wrapped_record = Inr (Some doc, doc)
       \<and> child_nodes doc = hdr @ [Elem ''component'' [] [] [Elem ''structuredBody'' [] [] sb]]
       \<and> map node_name sb =
           [''allergiesSectionEntriesRequired'', ''encountersSectionEntriesRequired'',
            ''immunizationsSectionEntriesRequired'', ''medicationsSectionEntriesRequired'',
            ''planOfCareSectionEntriesRequired'', ''problemsSectionEntriesRequired'',
            ''proceduresSectionEntriesRequired'', ''vitals''])"
proof -
  have pos: "0 < count_sections (unwrap sample_wrapped_record)"
    by (simp add: count_sections_def unwrap_def sample_wrapped_record_def)
  show ?thesis
    using pos structured_body_canonical_order [OF refl pos,
        of "[(''LOINC'', ''2.16.840.1.113883.6.1'')]"
           "\<lambda>t data. [Elem (template_name t) [] [] [json_to_xml data]]"
           "\<lambda>name data cs CCD.
              [Elem name [(''isWholeDocument'', if CCD then ''true'' else ''false'')] []
                 [json_to_xml data]]"
           "\<lambda>identifiers. [Elem ''id'' [] [] [json_to_xml identifiers]]"]
    by (auto simp: echo_def unwrap_def sample_wrapped_record_def)
qed

text \<open>
  C5 as stated fails: on a record without demographics the patientRole node holds the
  id block only, while any call of the demographics generator would have added to it;
  the generator is not invoked for every input record.
\<close>

theorem demographics_handler_always_invoked_counterexample:
  "map_option (select_path [''recordTarget'', ''patientRole''])
       (built_document (genWholeCCDA echo sample_body_record))
     = Some [Elem ''patientRole'' [] [] [Elem ''id'' [] [] [Elem ''undefined'' [] [] []]]]
   \<and> parent_after (demographics echo (get sample_body_record ''demographics'')
         (codeSystems echo) True
         (Elem ''patientRole'' [] [] [Elem ''id'' [] [] [Elem ''undefined'' [] [] []]]))
     \<noteq> Inr (Elem ''patientRole'' [] [] [Elem ''id'' [] [] [Elem ''undefined'' [] [] []]])"
proof -
  have nn: "\<not> nullish sample_body_record"
    by (simp add: sample_body_record_def)
  have u: "unwrap sample_body_record = sample_body_record"
    by (simp add: unwrap_def sample_body_record_def)
  have c: "count_sections sample_body_record = 2"
    by (simp add: count_sections_def sample_body_record_def)
  have t: "truthy sample_body_record"
    by (simp add: sample_body_record_def)
  have a: "map_option (select_path [''recordTarget'', ''patientRole''])
       (built_document (genWholeCCDA echo sample_body_record))
     = Some [Elem ''patientRole'' [] [] [Elem ''id'' [] [] [Elem ''undefined'' [] [] []]]]"
    unfolding echo_def
    by (simp only: genWholeCCDA_appending [OF nn] run_body_appending [OF t] Let_def u c)
       (simp add: add_children_eq header_after_id_eq header_before_id_eq children_named_def
          sample_body_record_def js_and_def built_document_def)
  have b: "parent_after (demographics echo (get sample_body_record ''demographics'')
         (codeSystems echo) True
         (Elem ''patientRole'' [] [] [Elem ''id'' [] [] [Elem ''undefined'' [] [] []]]))
     \<noteq> Inr (Elem ''patientRole'' [] [] [Elem ''id'' [] [] [Elem ''undefined'' [] [] []]])"
    by (simp add: echo_def appending_collaborators_def appending_generator_def
          add_children_eq parent_after_def Let_def)
  show ?thesis
    using a b by (rule conjI)
qed

text \<open>
  C5, amended. Whenever the assembly returns, the document has one recordTarget with one
  patientRole right after the header; the id-block generator was called once on that
  patientRole, with the demographics slice's identifiers; and the demographics generator
  was called once on it, in whole-document mode, when the record has demographics data,
  and not at all when it has none. Other sections only add the component that follows.
\<close>

theorem patient_role_block:
  assumes "genWholeCCDA c record = Inr (ret, doc)"
      and "demo = get (unwrap record) ''demographics''"
  shows "\<exists>x pr1 pr2 body.
           libCCDAGen_id c header_before_id
             (js_and (get record ''meta'') (get (get record ''meta'') ''identifiers'')) = Inr x
         \<and> libCCDAGen_id c (new_node ''patientRole'' []) (js_and demo (get demo ''identifiers''))
             = Inr pr1
         \<and> (if truthy demo
            then \<exists>r. demographics c demo (codeSystems c) True pr1 = Inr (r, pr2)
            else pr2 = pr1)
         \<and> child_nodes doc =
             child_nodes (header_after_id x) @ [Elem ''recordTarget'' [] [] [pr2]] @ body
         \<and> (body = [] \<or> (\<exists>sb. body = [Elem ''component'' [] [] [sb]]))"
proof -
  obtain x pr1 pr2 r where
    x: "libCCDAGen_id c header_before_id
          (js_and (get record ''meta'') (get (get record ''meta'') ''identifiers'')) = Inr x"
    and pr1: "libCCDAGen_id c (new_node ''patientRole'' [])
          (js_and demo (get demo ''identifiers'')) = Inr pr1"
    and g: "gen c demo True pr1 ''demographics'' = Inr (r, pr2)"
    and d: "if 0 < count_sections (unwrap record)
            then \<exists>sb. sections_loop c (unwrap record) (new_node ''structuredBody'' []) 2 = Inr sb
                   \<and> doc = append_child
                       (append_child (header_after_id x) (Elem ''recordTarget'' [] [] [pr2]))
                       (Elem ''component'' [] [] [sb])
                   \<and> ret = Some doc
            else doc = append_child (header_after_id x) (Elem ''recordTarget'' [] [] [pr2])
                   \<and> ret = None"
    using genWholeCCDA_returns [OF assms(1)] unfolding assms(2) by blast
  have h: "if truthy demo
           then \<exists>r. demographics c demo (codeSystems c) True pr1 = Inr (r, pr2)
           else pr2 = pr1"
    using g by (auto simp: gen_def)
  have b: "\<exists>body. child_nodes doc =
             child_nodes (header_after_id x) @ [Elem ''recordTarget'' [] [] [pr2]] @ body
         \<and> (body = [] \<or> (\<exists>sb. body = [Elem ''component'' [] [] [sb]]))"
    using d by (auto simp: append_child_def split: if_splits)
  show ?thesis
    using x pr1 h b by blast
qed

text \<open>
  C5, amended, at a concrete input: the wrapped record, which has demographics.
\<close>

theorem patient_role_block_witness:
  "\<exists>ret doc x body.
       genWholeCCDA echo sample_wrapped_record = Inr (ret, doc)
     \<and> libCCDAGen_id echo header_before_id (JArr [JStr ''outer'']) = Inr x
     \<and> child_nodes doc = child_nodes (header_after_id x) @
         [Elem ''recordTarget'' [] []
           [Elem ''patientRole'' [] []
             [Elem ''id'' [] [] [json_to_xml (JArr [JStr ''pat-1''])],
              Elem ''demographics'' [(''isWholeDocument'', ''true'')] []
                [json_to_xml (JObj [(''identifiers'', JArr [JStr ''pat-1''])])]]]] @ body
     \<and> (body = [] \<or> (\<exists>sb. body = [Elem ''component'' [] [] [sb]]))"
proof -
  have "\<not> nullish sample_wrapped_record"
    by (simp add: sample_wrapped_record_def)
  then obtain ret doc where r: "genWholeCCDA echo sample_wrapped_record = Inr (ret, doc)"
    unfolding echo_def using genWholeCCDA_appending_returns by blast
  show ?thesis
    using r patient_role_block [OF r refl]
    by (auto simp: echo_def appending_collaborators_def appending_generator_def
          add_children_eq new_node_def Let_def js_and_def unwrap_def sample_wrapped_record_def)
qed

text \<open>
  C6. Whenever the assembly returns and the id-block generator appended its fragment to
  the header, the document is the root element ClinicalDocument with its four namespace
  attributes, whose children start with realmCode, typeId (root 2.16.840.1.113883.1.3,
  extension POCD_HD000040), the templateIds 2.16.840.1.113883.10.20.22.1.1 and
  2.16.840.1.113883.10.20.22.1.2, the id fragment, code 34133-9 (codeSystem
  2.16.840.1.113883.6.1, codeSystemName LOINC), title, effectiveTime,
  confidentialityCode N (codeSystem 2.16.840.1.113883.5.25) and languageCode en-US,
  whatever the record.
\<close>

theorem header_fixed_literals:
  assumes "genWholeCCDA c record = Inr (ret, doc)"
      and "libCCDAGen_id c header_before_id
             (js_and (get record ''meta'') (get (get record ''meta'') ''identifiers''))
           = Inr (add_children header_before_id idfrag)"
  shows "\<exists>rest. doc =
           Elem ''ClinicalDocument''
             [(''xmlns:xsi'', ''http://www.w3.org/2001/XMLSchema-instance''),
              (''xmlns'', ''urn:hl7-org:v3''),
              (''xmlns:cda'', ''urn:hl7-org:v3''),
              (''xmlns:sdtc'', ''urn:hl7-org:sdtc'')] []
             ([Elem ''realmCode'' [(''code'', ''US'')] [] [],
               Elem ''typeId''
                 [(''root'', ''2.16.840.1.113883.1.3''), (''extension'', ''POCD_HD000040'')] [] [],
               Elem ''templateId'' [(''root'', ''2.16.840.1.113883.10.20.22.1.1'')] [] [],
               Elem ''templateId'' [(''root'', ''2.16.840.1.113883.10.20.22.1.2'')] [] []]
              @ idfrag
              @ [Elem ''code''
                   [(''codeSystem'', ''2.16.840.1.113883.6.1''), (''codeSystemName'', ''LOINC''),
                    (''code'', ''34133-9''), (''displayName'', ''Summarization of Episode Note'')]
                   [] [],
                 Elem ''title'' [] ''Community Health and Hospitals: Health Summary'' [],
                 Elem ''effectiveTime'' [(''value'', ''TODO'')] [] [],
                 Elem ''confidentialityCode''
                   [(''code'', ''N''), (''codeSystem'', ''2.16.840.1.113883.5.25'')] [] [],
                 Elem ''languageCode'' [(''code'', ''en-US'')] [] []]
              @ rest)"
proof -
  obtain x pr2 where
    x: "libCCDAGen_id c header_before_id
          (js_and (get record ''meta'') (get (get record ''meta'') ''identifiers'')) = Inr x"
    and d: "if 0 < count_sections (unwrap record)
            then \<exists>sb. sections_loop c (unwrap record) (new_node ''structuredBody'' []) 2 = Inr sb
                   \<and> doc = append_child
                       (append_child (header_after_id x) (Elem ''recordTarget'' [] [] [pr2]))
                       (Elem ''component'' [] [] [sb])
                   \<and> ret = Some doc
            else doc = append_child (header_after_id x) (Elem ''recordTarget'' [] [] [pr2])
                   \<and> ret = None"
    using genWholeCCDA_returns [OF assms(1)] by blast
  have xe: "x = add_children header_before_id idfrag"
    using x assms(2) by simp
  show ?thesis
    using d
    by (auto simp: xe header_after_id_eq header_before_id_eq add_children_eq append_child_def
             split: if_splits)
qed

text \<open>
  C6, at a concrete input: the flat record with meta and demographics.
\<close>

theorem header_fixed_literals_witness:
  "\<exists>ret doc rest.
       genWholeCCDA echo sample_flat_record = Inr (ret, doc)
     \<and> libCCDAGen_id echo header_before_id (JArr [JStr ''doc-1''])
         = Inr (add_children header_before_id [Elem ''id'' [] [] [json_to_xml (JArr [JStr ''doc-1''])]])
     \<and> doc =
           Elem ''ClinicalDocument''
             [(''xmlns:xsi'', ''http://www.w3.org/2001/XMLSchema-instance''),
              (''xmlns'', ''urn:hl7-org:v3''),
              (''xmlns:cda'', ''urn:hl7-org:v3''),
              (''xmlns:sdtc'', ''urn:hl7-org:sdtc'')] []
             ([Elem ''realmCode'' [(''code'', ''US'')] [] [],
               Elem ''typeId''
                 [(''root'', ''2.16.840.1.113883.1.3''), (''extension'', ''POCD_HD000040'')] [] [],
               Elem ''templateId'' [(''root'', ''2.16.840.1.113883.10.20.22.1.1'')] [] [],
               Elem ''templateId'' [(''root'', ''2.16.840.1.113883.10.20.22.1.2'')] [] [],
               Elem ''id'' [] [] [json_to_xml (JArr [JStr ''doc-1''])],
               Elem ''code''
                   [(''codeSystem'', ''2.16.840.1.113883.6.1''), (''codeSystemName'', ''LOINC''),
                    (''code'', ''34133-9''), (''displayName'', ''Summarization of Episode Note'')]
                   [] [],
               Elem ''title'' [] ''Community Health and Hospitals: Health Summary'' [],
               Elem ''effectiveTime'' [(''value'', ''TODO'')] [] [],
               Elem ''confidentialityCode''
                   [(''code'', ''N''), (''codeSystem'', ''2.16.840.1.113883.5.25'')] [] [],
               Elem ''languageCode'' [(''code'', ''en-US'')] [] []]
              @ rest)"
proof -
  have "\<not> nullish sample_flat_record"
    by (simp add: sample_flat_record_def)
  then obtain ret doc where r: "genWholeCCDA echo sample_flat_record = Inr (ret, doc)"
    unfolding echo_def using genWholeCCDA_appending_returns by blast
  have m: "js_and (get sample_flat_record ''meta'')
             (get (get sample_flat_record ''meta'') ''identifiers'') = JArr [JStr ''doc-1'']"
    by (simp add: js_and_def sample_flat_record_def)
  have i: "libCCDAGen_id echo header_before_id (JArr [JStr ''doc-1''])
         = Inr (add_children header_before_id [Elem ''id'' [] [] [json_to_xml (JArr [JStr ''doc-1''])]])"
    by (simp add: echo_def appending_collaborators_def)
  show ?thesis
    using r i header_fixed_literals [OF r, unfolded m, OF i]
    by auto
qed

text \<open>
  C10. Whenever the assembly returns, the header's id block was generated from the outer
  record's \<open>meta.identifiers\<close>, also when the record has a \<open>data\<close> wrapper, and five
  children later come setId (extension sTT988, root 2.16.840.1.113883.19.5.99999.19)
  and versionNumber (value 1), which do not depend on the record.
\<close>

theorem header_set_id_version_and_meta_source:
  assumes "genWholeCCDA c record = Inr (ret, doc)"
  shows "\<exists>x pre rest.
           libCCDAGen_id c header_before_id
             (js_and (get record ''meta'') (get (get record ''meta'') ''identifiers'')) = Inr x
         \<and> length pre = 5
         \<and> child_nodes doc = child_nodes x @ pre
             @ [Elem ''setId''
                  [(''extension'', ''sTT988''), (''root'', ''2.16.840.1.113883.19.5.99999.19'')]
                  [] [],
                Elem ''versionNumber'' [(''value'', ''1'')] [] []]
             @ rest"
proof -
  obtain x pr2 where
    x: "libCCDAGen_id c header_before_id
          (js_and (get record ''meta'') (get (get record ''meta'') ''identifiers'')) = Inr x"
    and d: "if 0 < count_sections (unwrap record)
            then \<exists>sb. sections_loop c (unwrap record) (new_node ''structuredBody'' []) 2 = Inr sb
                   \<and> doc = append_child
                       (append_child (header_after_id x) (Elem ''recordTarget'' [] [] [pr2]))
                       (Elem ''component'' [] [] [sb])
                   \<and> ret = Some doc
            else doc = append_child (header_after_id x) (Elem ''recordTarget'' [] [] [pr2])
                   \<and> ret = None"
    using genWholeCCDA_returns [OF assms(1)] by blast
  let ?pre = "[Elem ''code''
                   [(''codeSystem'', ''2.16.840.1.113883.6.1''), (''codeSystemName'', ''LOINC''),
                    (''code'', ''34133-9''), (''displayName'', ''Summarization of Episode Note'')]
                   [] [],
               Elem ''title'' [] ''Community Health and Hospitals: Health Summary'' [],
               Elem ''effectiveTime'' [(''value'', ''TODO'')] [] [],
               Elem ''confidentialityCode''
                   [(''code'', ''N''), (''codeSystem'', ''2.16.840.1.113883.5.25'')] [] [],
               Elem ''languageCode'' [(''code'', ''en-US'')] [] []]"
  have "\<exists>rest. child_nodes doc = child_nodes x @ ?pre
             @ [Elem ''setId''
                  [(''extension'', ''sTT988''), (''root'', ''2.16.840.1.113883.19.5.99999.19'')]
                  [] [],
                Elem ''versionNumber'' [(''value'', ''1'')] [] []]
             @ rest"
    using d by (auto simp: header_after_id_eq append_child_def split: if_splits)
  then obtain rest where
    "child_nodes doc = child_nodes x @ ?pre
             @ [Elem ''setId''
                  [(''extension'', ''sTT988''), (''root'', ''2.16.840.1.113883.19.5.99999.19'')]
                  [] [],
                Elem ''versionNumber'' [(''value'', ''1'')] [] []]
             @ rest" ..
  moreover have "length ?pre = 5"
    by simp
  ultimately show ?thesis
    using x by blast
qed

text \<open>
  C10, at a concrete input: the wrapped record, whose wrapper has a meta key of its own;
  the header id block shows the outer identifiers.
\<close>

theorem header_set_id_version_and_meta_source_witness:
  "\<exists>ret doc pre rest.
       genWholeCCDA echo sample_wrapped_record = Inr (ret, doc)
     \<and> length pre = 5
     \<and> child_nodes doc =
         child_nodes header_before_id
         @ [Elem ''id'' [] [] [json_to_xml (JArr [JStr ''outer''])]]
         @ pre
         @ [Elem ''setId''
              [(''extension'', ''sTT988''), (''root'', ''2.16.840.1.113883.19.5.99999.19'')] [] [],
            Elem ''versionNumber'' [(''value'', ''1'')] [] []]
         @ rest"
proof -
  have "\<not> nullish sample_wrapped_record"
    by (simp add: sample_wrapped_record_def)
  then obtain ret doc where r: "genWholeCCDA echo sample_wrapped_record = Inr (ret, doc)"
    unfolding echo_def using genWholeCCDA_appending_returns by blast
  have m: "js_and (get sample_wrapped_record ''meta'')
             (get (get sample_wrapped_record ''meta'') ''identifiers'') = JArr [JStr ''outer'']"
    by (simp add: js_and_def sample_wrapped_record_def)
  have i: "libCCDAGen_id echo header_before_id (JArr [JStr ''outer''])
         = Inr (add_children header_before_id [Elem ''id'' [] [] [json_to_xml (JArr [JStr ''outer''])]])"
    by (simp add: echo_def appending_collaborators_def)
  obtain x pre rest where
    "libCCDAGen_id echo header_before_id (JArr [JStr ''outer'']) = Inr x"
    "length pre = 5"
    "child_nodes doc = child_nodes x @ pre
         @ [Elem ''setId''
              [(''extension'', ''sTT988''), (''root'', ''2.16.840.1.113883.19.5.99999.19'')] [] [],
            Elem ''versionNumber'' [(''value'', ''1'')] [] []]
         @ rest"
    using header_set_id_version_and_meta_source [OF r, unfolded m] by blast
  then show ?thesis
    using r i by (auto simp: add_children_eq)
qed

end
